theory Spec2Isabelle
  imports Main
begin

section \<open>The list model of qmlwrap (listmodel.cpp)\<close>

text \<open>
  \<^verbatim>\<open>ListModel\<close> adapts a Julia array to Qt's \<^verbatim>\<open>QAbstractListModel\<close>. The embedding
  keeps the members of the class as the fields of a record and turns every member function
  into a function from the state to the new state.

  \<^item> Julia values and functions are reached through pointers (\<^verbatim>\<open>jl_value_t*\<close>,
    \<^verbatim>\<open>jl_function_t*\<close>). A function pointer is an address; a pointer that may be
    \<^verbatim>\<open>nullptr\<close> is an \<open>option\<close>, \<open>None\<close> being \<^verbatim>\<open>nullptr\<close>.
  \<^item> C++ \<^verbatim>\<open>int\<close> is \<open>int\<close>, and \<^verbatim>\<open>m_array.size()\<close> is the length of a list, read
    as the \<^verbatim>\<open>int\<close> that \<^verbatim>\<open>rowCount\<close> and \<^verbatim>\<open>count\<close> return. Signed overflow is
    undefined in C++ and is not modelled: the inputs of the theorems below are bounded by
    the size of the array through the tests of the source, and the comparisons they go
    through are between numbers that are not negative.
  \<^item> Reading or writing \<^verbatim>\<open>m_array[i]\<close>, \<^verbatim>\<open>m_getters[i]\<close> or
    \<^verbatim>\<open>m_setters[i]\<close> outside the container is undefined behaviour in C++. The model
    makes it the value \<open>Inl OutOfBounds\<close>, so that an operation that returns \<open>Inr\<close> has
    touched positions in range only.
  \<^item> What the class does to the outside (Qt signals, \<^verbatim>\<open>qWarning\<close>, calls into Julia,
    \<^verbatim>\<open>protect_from_gc\<close> and \<^verbatim>\<open>unprotect_from_gc\<close>) is appended to the field
    \<open>trace\<close>, in the order of the source. The update hook is a call into Julia that the
    model records and that leaves the array as it is. The scoped collector roots of
    \<^verbatim>\<open>JL_GC_PUSH\<close> and \<^verbatim>\<open>JL_GC_POP\<close> are not part of the state.
\<close>

subsection \<open>Data\<close>

type_synonym jl_ptr = nat

datatype fault = OutOfBounds

datatype warning =
    RowOutOfRange int
  | NullSetter string
  | NoConstructor
  | ErrorAppending
  | InvalidMove
  | RoleExists string
  | InvalidGetter string
  | RoleOutOfRangeGetter int
  | RoleOutOfRangeSetter int

datatype 'j event =
    Warning warning
  | BeginInsertRows int int
  | EndInsertRows
  | BeginRemoveRows int int
  | EndRemoveRows
  | BeginMoveRows int int int
  | EndMoveRows
  | DataChanged int int "int list"
  | RolesChanged
  | CountChanged
  | Protect jl_ptr
  | Unprotect jl_ptr
  | CallUpdate jl_ptr
  | CallSetter jl_ptr 'j int

text \<open>
  \<^verbatim>\<open>QHash<int, QByteArray> m_rolenames\<close> is an association list with one pair per key.
  \<^verbatim>\<open>size()\<close> counts the pairs, \<^verbatim>\<open>values().contains(v)\<close> looks for a value,
  \<^verbatim>\<open>key(v)\<close> is a key that holds \<open>v\<close> and the default-constructed key \<open>0\<close> when there is
  none, the non-const \<^verbatim>\<open>operator[]\<close> inserts an empty value under a missing key, and
  \<^verbatim>\<open>h[k] = v\<close> replaces or inserts.
\<close>

type_synonym qhash = "(int \<times> string) list"

definition qhash_size :: "qhash \<Rightarrow> int" where
  "qhash_size h = int (length h)"

definition qhash_values_contains :: "qhash \<Rightarrow> string \<Rightarrow> bool" where
  "qhash_values_contains h v = (v \<in> set (map snd h))"

definition qhash_key :: "qhash \<Rightarrow> string \<Rightarrow> int" where
  "qhash_key h v = (case find (\<lambda>p. snd p = v) h of None \<Rightarrow> 0 | Some p \<Rightarrow> fst p)"

definition qhash_index :: "qhash \<Rightarrow> int \<Rightarrow> string \<times> qhash" where
  "qhash_index h k = (case map_of h k of Some v \<Rightarrow> (v, h) | None \<Rightarrow> ([], h @ [(k, [])]))"

definition qhash_assign :: "qhash \<Rightarrow> int \<Rightarrow> string \<Rightarrow> qhash" where
  "qhash_assign h k v =
     (if k \<in> set (map fst h) then map (\<lambda>p. if fst p = k then (k, v) else p) h else h @ [(k, v)])"

record 'j listmodel =
  m_array :: "'j list"
  m_array_wrapped :: jl_ptr
  m_update_array :: "jl_ptr option"
  m_rolenames :: qhash
  m_getters :: "jl_ptr list"
  m_setters :: "jl_ptr option list"
  m_constructor :: "jl_ptr option"
  m_custom_roles :: bool
  trace :: "'j event list"

text \<open>
  The host: what a call into Julia returns and the conversions between Julia values (\<open>'j\<close>)
  and \<^verbatim>\<open>QVariant\<close> (\<open>'q\<close>). \<open>jl_call\<close> is \<open>None\<close> when the call returns
  \<^verbatim>\<open>nullptr\<close>. A setter receives the wrapped array, the boxed value and a position, and
  what it leaves in the array is \<open>jl_call_setter\<close>.
\<close>

record ('j, 'q) host =
  string_function :: jl_ptr
  jl_call1 :: "jl_ptr \<Rightarrow> 'j \<Rightarrow> 'j"
  jl_call :: "jl_ptr \<Rightarrow> 'j list \<Rightarrow> 'j option"
  jl_call_setter :: "jl_ptr \<Rightarrow> 'j list \<Rightarrow> 'j \<Rightarrow> int \<Rightarrow> 'j list"
  convert_to_cpp :: "'j \<Rightarrow> 'q"
  convert_to_julia :: "'q \<Rightarrow> 'j"
  box :: "'q \<Rightarrow> 'j"

definition emit :: "'j listmodel \<Rightarrow> 'j event \<Rightarrow> 'j listmodel" where
  "emit st e = st\<lparr>trace := trace st @ [e]\<rparr>"

definition qWarning :: "'j listmodel \<Rightarrow> warning \<Rightarrow> 'j listmodel" where
  "qWarning st w = emit st (Warning w)"

subsection \<open>Construction and the role registry\<close>

text \<open>
  Modelled from the spec: the member initialisers of \<^verbatim>\<open>m_constructor\<close> and
  \<^verbatim>\<open>m_custom_roles\<close> are in listmodel.hpp, which is not among the sources. The spec
  makes the constructor optional and the default role set stay until the first custom role,
  so the model starts with no constructor and \<open>m_custom_roles = False\<close>.
\<close>

definition ListModel :: "('j, 'q) host \<Rightarrow> 'j list \<Rightarrow> jl_ptr \<Rightarrow> jl_ptr option \<Rightarrow> 'j listmodel" where
  "ListModel h array wrapped f =
     \<lparr> m_array = array, m_array_wrapped = wrapped, m_update_array = f,
       m_rolenames = qhash_assign [] 0 ''string'',
       m_getters = [string_function h],
       m_setters = [None],
       m_constructor = None,
       m_custom_roles = False,
       trace = Protect wrapped # (case f of None \<Rightarrow> [] | Some p \<Rightarrow> [Protect p]) \<rparr>"

definition addrole :: "'j listmodel \<Rightarrow> string \<Rightarrow> jl_ptr option \<Rightarrow> jl_ptr option \<Rightarrow> 'j listmodel" where
  "addrole st name getter setter =
     (if qhash_values_contains (m_rolenames st) name then qWarning st (RoleExists name)
      else case getter of
        None \<Rightarrow> qWarning st (InvalidGetter name)
      | Some g \<Rightarrow>
         let st1 = (if \<not> m_custom_roles st
                    then st\<lparr>m_rolenames := [], m_getters := [], m_setters := [],
                            m_custom_roles := True\<rparr>
                    else st);
             st2 = emit st1 (Protect g);
             st3 = (case setter of None \<Rightarrow> st2 | Some s \<Rightarrow> emit st2 (Protect s))
         in emit (st3\<lparr>m_rolenames := qhash_assign (m_rolenames st3) (qhash_size (m_rolenames st3)) name,
                       m_getters := m_getters st3 @ [g],
                       m_setters := m_setters st3 @ [setter]\<rparr>) RolesChanged)"

text \<open>
  \<^verbatim>\<open>setconstructor\<close> is called with a Julia function, so its argument is an address;
  the pointer it stores is passed to \<^verbatim>\<open>protect_from_gc\<close> without a test.
\<close>

definition setconstructor :: "'j listmodel \<Rightarrow> jl_ptr \<Rightarrow> 'j listmodel" where
  "setconstructor st constructor = emit (st\<lparr>m_constructor := Some constructor\<rparr>) (Protect constructor)"

text \<open>
  The destructor releases the array, the update hook when there is one, every getter and
  every setter that is not null, in this order.
\<close>

definition destructor :: "'j listmodel \<Rightarrow> 'j listmodel" where
  "destructor st =
     st\<lparr>trace := trace st
          @ [Unprotect (m_array_wrapped st)]
          @ (case m_update_array st of None \<Rightarrow> [] | Some f \<Rightarrow> [Unprotect f])
          @ map Unprotect (m_getters st)
          @ concat (map (\<lambda>f. case f of None \<Rightarrow> [] | Some p \<Rightarrow> [Unprotect p]) (m_setters st))\<rparr>"

definition do_update :: "'j listmodel \<Rightarrow> 'j listmodel" where
  "do_update st = (case m_update_array st of None \<Rightarrow> st | Some f \<Rightarrow> emit st (CallUpdate f))"

definition do_update_roles :: "'j listmodel \<Rightarrow> int \<Rightarrow> int \<Rightarrow> int list \<Rightarrow> 'j listmodel" where
  "do_update_roles st index count roles =
     emit (do_update st) (DataChanged index (index + count - 1) roles)"

subsection \<open>Moving a block\<close>

text \<open>
  The three loops of \<^verbatim>\<open>ListModel::move\<close>. \<^verbatim>\<open>removed_elems\<close> has \<open>count\<close> slots;
  the loop that fills it writes slot \<open>i\<close> in its iteration \<open>i\<close>, counting from 0, so the
  slots written so far are a list and the write is an append, in range when \<open>0 \<le> i < count\<close>.
\<close>

function save_elems :: "'j list \<Rightarrow> 'j list \<Rightarrow> int \<Rightarrow> int \<Rightarrow> int \<Rightarrow> fault + 'j list" where
  "save_elems arr removed from count i =
     (if i = count then Inr removed
      else if i < 0 \<or> count \<le> i \<or> from + i < 0 \<or> int (length arr) \<le> from + i
        then Inl OutOfBounds
      else save_elems arr (removed @ [arr ! nat (from + i)]) from count (i + 1))"
  by pat_completeness auto
termination
  by (relation "measure (\<lambda>(arr, removed, from, count, i). nat (count - i))") auto

function shift_elems :: "'j list \<Rightarrow> int \<Rightarrow> int \<Rightarrow> int \<Rightarrow> fault + 'j list" where
  "shift_elems arr to count i =
     (if i = to then Inr arr
      else if i < 0 \<or> int (length arr) \<le> i \<or> i + count < 0 \<or> int (length arr) \<le> i + count
        then Inl OutOfBounds
      else shift_elems (arr[nat i := arr ! nat (i + count)]) to count (i + 1))"
  by pat_completeness auto
termination
  by (relation "measure (\<lambda>(arr, to, count, i). nat (int (length arr) - i))") auto

function place_elems :: "'j list \<Rightarrow> 'j list \<Rightarrow> int \<Rightarrow> int \<Rightarrow> int \<Rightarrow> fault + 'j list" where
  "place_elems arr removed to count i =
     (if i = count then Inr arr
      else if i < 0 \<or> int (length removed) \<le> i \<or> to + i < 0 \<or> int (length arr) \<le> to + i
        then Inl OutOfBounds
      else place_elems (arr[nat (to + i) := removed ! nat i]) removed to count (i + 1))"
  by pat_completeness auto
termination
  by (relation "measure (\<lambda>(arr, removed, to, count, i). nat (int (length removed) - i))") auto

declare save_elems.simps [simp del] shift_elems.simps [simp del] place_elems.simps [simp del]

text \<open>The swap of \<^verbatim>\<open>from\<close> and \<^verbatim>\<open>to\<close> when \<^verbatim>\<open>to < from\<close>.\<close>

definition move_normalize :: "int \<Rightarrow> int \<Rightarrow> int \<Rightarrow> int \<times> int \<times> int" where
  "move_normalize from to count =
     (if to < from then (to, to + count, from - to) else (from, to, count))"

text \<open>The test that guards the warning, negated: the arguments are accepted.\<close>

definition move_accepts :: "int \<Rightarrow> int \<Rightarrow> int \<Rightarrow> int \<Rightarrow> bool" where
  "move_accepts n from to count =
     (case move_normalize from to count of
        (f, t, c) \<Rightarrow> \<not> (f < 0 \<or> n \<le> f \<or> t < 0 \<or> n \<le> t \<or> n < t + c))"

definition move :: "'j listmodel \<Rightarrow> int \<Rightarrow> int \<Rightarrow> int \<Rightarrow> fault + 'j listmodel" where
  "move st from to count =
     (if from = to \<or> count = 0 then Inr st
      else if \<not> move_accepts (int (length (m_array st))) from to count
        then Inr (qWarning st InvalidMove)
      else case move_normalize from to count of (f, t, c) \<Rightarrow>
        let st1 = emit st (BeginMoveRows f (f + c - 1) (t + c)) in
        case save_elems (m_array st1) [] f c 0 of
          Inl e \<Rightarrow> Inl e
        | Inr removed_elems \<Rightarrow>
           (case shift_elems (m_array st1) t c f of
              Inl e \<Rightarrow> Inl e
            | Inr a1 \<Rightarrow>
               (case place_elems a1 removed_elems t c 0 of
                  Inl e \<Rightarrow> Inl e
                | Inr a2 \<Rightarrow> Inr (emit (do_update (st1\<lparr>m_array := a2\<rparr>)) EndMoveRows))))"

text \<open>
  What the loops leave behind, position by position: \<open>shifted\<close> after the second loop run
  from \<open>i\<close>, \<open>placed\<close> after the third run from \<open>i\<close>, and \<open>moved_block\<close> after all
  three: the elements of \<open>[f + c, t + c)\<close> have moved down to \<open>[f, t)\<close> and the block
  \<open>[f, f + c)\<close> sits at \<open>[t, t + c)\<close>.
\<close>

definition shifted :: "'j list \<Rightarrow> int \<Rightarrow> int \<Rightarrow> int \<Rightarrow> 'j list" where
  "shifted arr i to count =
     map (\<lambda>k. if i \<le> int k \<and> int k < to then arr ! nat (int k + count) else arr ! k)
       [0..<length arr]"

definition placed :: "'j list \<Rightarrow> 'j list \<Rightarrow> int \<Rightarrow> int \<Rightarrow> int \<Rightarrow> 'j list" where
  "placed arr removed to count i =
     map (\<lambda>k. if to + i \<le> int k \<and> int k < to + count then removed ! nat (int k - to) else arr ! k)
       [0..<length arr]"

definition moved_block :: "'j list \<Rightarrow> int \<Rightarrow> int \<Rightarrow> int \<Rightarrow> 'j list" where
  "moved_block arr f t c =
     map (\<lambda>k. if f \<le> int k \<and> int k < t then arr ! nat (int k + c)
              else if t \<le> int k \<and> int k < t + c then arr ! nat (f + (int k - t))
              else arr ! k) [0..<length arr]"

subsection \<open>Reading and writing cells\<close>

definition rowCount :: "'j listmodel \<Rightarrow> int" where
  "rowCount st = int (length (m_array st))"

definition count :: "'j listmodel \<Rightarrow> int" where
  "count st = int (length (m_array st))"

text \<open>
  \<^verbatim>\<open>rolegetter\<close> returns the \<^verbatim>\<open>string\<close> function for a role outside the registry.
  \<^verbatim>\<open>rolesetter\<close> logs for such a role and goes on to read \<^verbatim>\<open>m_setters[role]\<close>.

  Modelled from the spec: the class \<^verbatim>\<open>JuliaFunction\<close> is in functions.hpp, which is not
  among the sources. Invoking a null setter is a recoverable failure: the constructor of
  \<^verbatim>\<open>JuliaFunction\<close> refuses a null pointer with the \<^verbatim>\<open>std::runtime_error\<close> that
  \<^verbatim>\<open>setData\<close> catches. \<open>rolesetter\<close> returns \<open>None\<close> where that exception is thrown.
\<close>

definition rolegetter :: "('j, 'q) host \<Rightarrow> 'j listmodel \<Rightarrow> int \<Rightarrow> fault + jl_ptr \<times> 'j listmodel" where
  "rolegetter h st role =
     (if role < 0 \<or> qhash_size (m_rolenames st) \<le> role
        then Inr (string_function h, qWarning st (RoleOutOfRangeGetter role))
      else if int (length (m_getters st)) \<le> role then Inl OutOfBounds
      else Inr (m_getters st ! nat role, st))"

definition rolesetter :: "'j listmodel \<Rightarrow> int \<Rightarrow> fault + jl_ptr option \<times> 'j listmodel" where
  "rolesetter st role =
     (let st1 = (if role < 0 \<or> qhash_size (m_rolenames st) \<le> role
                 then qWarning st (RoleOutOfRangeSetter role) else st)
      in if role < 0 \<or> int (length (m_setters st1)) \<le> role then Inl OutOfBounds
         else Inr (m_setters st1 ! nat role, st1))"

text \<open>\<^verbatim>\<open>data\<close> returns an invalid \<^verbatim>\<open>QVariant\<close>, here \<open>None\<close>, for a row out of range.\<close>

definition data :: "('j, 'q) host \<Rightarrow> 'j listmodel \<Rightarrow> int \<Rightarrow> int \<Rightarrow> fault + 'q option \<times> 'j listmodel" where
  "data h st row role =
     (if row < 0 \<or> int (length (m_array st)) \<le> row
        then Inr (None, qWarning st (RowOutOfRange row))
      else case rolegetter h st role of
        Inl e \<Rightarrow> Inl e
      | Inr (g, st1) \<Rightarrow> Inr (Some (convert_to_cpp h (jl_call1 h g (m_array st1 ! nat row))), st1))"

definition setData :: "('j, 'q) host \<Rightarrow> 'j listmodel \<Rightarrow> int \<Rightarrow> 'q \<Rightarrow> int \<Rightarrow> fault + bool \<times> 'j listmodel" where
  "setData h st row val role =
     (if row < 0 \<or> int (length (m_array st)) \<le> row
        then Inr (False, qWarning st (RowOutOfRange row))
      else case rolesetter st role of
        Inl e \<Rightarrow> Inl e
      | Inr (None, st1) \<Rightarrow>
          (case qhash_index (m_rolenames st1) role of
             (name, names) \<Rightarrow> Inr (False, qWarning (st1\<lparr>m_rolenames := names\<rparr>) (NullSetter name)))
      | Inr (Some s, st1) \<Rightarrow>
          Inr (True,
            do_update_roles
              (emit (st1\<lparr>m_array := jl_call_setter h s (m_array st1) (box h val) (row + 1)\<rparr>)
                 (CallSetter s (box h val) (row + 1)))
              row 1 [role]))"

definition setProperty :: "('j, 'q) host \<Rightarrow> 'j listmodel \<Rightarrow> int \<Rightarrow> string \<Rightarrow> 'q \<Rightarrow> fault + 'j listmodel" where
  "setProperty h st index property val =
     (case setData h st index val (qhash_key (m_rolenames st) property) of
        Inl e \<Rightarrow> Inl e
      | Inr (ok, st1) \<Rightarrow> Inr st1)"

subsection \<open>Appending, inserting and clearing\<close>

text \<open>
  A \<^verbatim>\<open>QJSValue\<close> record is an array of values or an object with named properties.
  For an object, \<^verbatim>\<open>append\<close> walks the role ids \<open>0, \<dots>, nb_roles - 1\<close>, reads each name with
  the non-const \<^verbatim>\<open>operator[]\<close> and collects the properties the record has.
  \<^verbatim>\<open>ListModel::append\<close> and \<^verbatim>\<open>ListModel::insert\<close> are \<open>append_record\<close> and
  \<open>insert_record\<close> here, since HOL has an \<open>append\<close> and an \<open>insert\<close> of its own.
\<close>

datatype 'q qjsvalue = JSArray "'q list" | JSObject "(string \<times> 'q) list"

definition append_role :: "(string \<times> 'q) list \<Rightarrow> int \<Rightarrow> qhash \<times> 'q list \<Rightarrow> qhash \<times> 'q list" where
  "append_role props i acc =
     (case qhash_index (fst acc) i of
        (rolename, names) \<Rightarrow>
          (names, case map_of props rolename of None \<Rightarrow> snd acc | Some v \<Rightarrow> snd acc @ [v]))"

definition collect_roles :: "qhash \<Rightarrow> (string \<times> 'q) list \<Rightarrow> qhash \<times> 'q list" where
  "collect_roles names props = fold (append_role props) (map int [0..<length names]) (names, [])"

definition append_list :: "('j, 'q) host \<Rightarrow> 'j listmodel \<Rightarrow> 'q list \<Rightarrow> 'j listmodel" where
  "append_list h st argvariants =
     (case m_constructor st of
        None \<Rightarrow> qWarning st NoConstructor
      | Some c \<Rightarrow>
         (case jl_call h c (map (convert_to_julia h) argvariants) of
            None \<Rightarrow> qWarning st ErrorAppending
          | Some result \<Rightarrow>
             let st1 = emit st (BeginInsertRows (int (length (m_array st))) (int (length (m_array st))));
                 st2 = st1\<lparr>m_array := m_array st1 @ [result]\<rparr>;
                 st3 = do_update st2;
                 st4 = emit st3 EndInsertRows
             in emit st4 CountChanged))"

definition append_record :: "('j, 'q) host \<Rightarrow> 'j listmodel \<Rightarrow> 'q qjsvalue \<Rightarrow> 'j listmodel" where
  "append_record h st record =
     (case record of
        JSArray vs \<Rightarrow> append_list h st vs
      | JSObject props \<Rightarrow>
         (case collect_roles (m_rolenames st) props of
            (names, argvariants) \<Rightarrow> append_list h (st\<lparr>m_rolenames := names\<rparr>) argvariants))"

text \<open>The arguments \<^verbatim>\<open>append\<close> hands to the constructor for a record.\<close>

definition argvariants_of :: "'j listmodel \<Rightarrow> 'q qjsvalue \<Rightarrow> 'q list" where
  "argvariants_of st record =
     (case record of
        JSArray vs \<Rightarrow> vs
      | JSObject props \<Rightarrow> snd (collect_roles (m_rolenames st) props))"

definition insert_record :: "('j, 'q) host \<Rightarrow> 'j listmodel \<Rightarrow> int \<Rightarrow> 'q qjsvalue \<Rightarrow> fault + 'j listmodel" where
  "insert_record h st index record =
     (let st1 = append_record h st record
      in move st1 (int (length (m_array st1)) - 1) index 1)"

definition insert_list :: "('j, 'q) host \<Rightarrow> 'j listmodel \<Rightarrow> int \<Rightarrow> 'q list \<Rightarrow> fault + 'j listmodel" where
  "insert_list h st index argvariants =
     (let st1 = append_list h st argvariants
      in move st1 (int (length (m_array st1)) - 1) index 1)"

definition jl_array_del_end :: "'j list \<Rightarrow> int \<Rightarrow> 'j list" where
  "jl_array_del_end arr k = take (length arr - nat k) arr"

definition clear :: "'j listmodel \<Rightarrow> 'j listmodel" where
  "clear st =
     (let st1 = emit st (BeginRemoveRows 0 (int (length (m_array st))));
          st2 = st1\<lparr>m_array := jl_array_del_end (m_array st1) (int (length (m_array st1)))\<rparr>;
          st3 = do_update st2
      in emit st3 EndRemoveRows)"

subsection \<open>A host to run the model on\<close>

text \<open>
  A value on the Qt side is a number and a Julia value is a list of numbers: a boxed or
  converted value is the list of the one number, an item is the list of its fields.
  Function 20 is a constructor of two arguments that fails on any other number of them,
  functions 30 and 32 read the first and the second field, function 31 stores a value in
  the first field of the item at the 1-based position it is given, as Julia's
  \<^verbatim>\<open>setindex!\<close> counts, and any other function, the \<^verbatim>\<open>string\<close> function 1 among
  them, returns its argument.
\<close>

definition example_host :: "(nat list, nat) host" where
  "example_host =
     \<lparr> string_function = 1,
       jl_call1 = (\<lambda>f item. if f = 30 then take 1 item
                             else if f = 32 then take 1 (drop 1 item) else item),
       jl_call = (\<lambda>f args. if f = 20 \<and> length args = 2 then Some (concat args) else None),
       jl_call_setter = (\<lambda>f arr v pos.
          if f = 31 \<and> 1 \<le> pos \<and> pos \<le> int (length arr)
          then arr[nat (pos - 1) := v @ drop 1 (arr ! nat (pos - 1))] else arr),
       convert_to_cpp = (\<lambda>j. case j of [] \<Rightarrow> 0 | x # xs \<Rightarrow> x),
       convert_to_julia = (\<lambda>q. [q]),
       box = (\<lambda>q. [q]) \<rparr>"

text \<open>A model as constructed, and one with a constructor and the roles name and age.\<close>

definition example_model :: "nat list list \<Rightarrow> nat list listmodel" where
  "example_model items = ListModel example_host items 10 None"

definition example_roles_model :: "nat list list \<Rightarrow> nat list listmodel" where
  "example_roles_model items =
     addrole (addrole (setconstructor (example_model items) 20) ''name'' (Some 30) (Some 31))
       ''age'' (Some 32) None"

section \<open>Properties\<close>

lemma emit_fields [simp]:
  "m_array (emit st e) = m_array st"
  "m_rolenames (emit st e) = m_rolenames st"
  "m_getters (emit st e) = m_getters st"
  "m_setters (emit st e) = m_setters st"
  "m_constructor (emit st e) = m_constructor st"
  "m_custom_roles (emit st e) = m_custom_roles st"
  "m_update_array (emit st e) = m_update_array st"
  "m_array_wrapped (emit st e) = m_array_wrapped st"
  "trace (emit st e) = trace st @ [e]"
  by (simp_all add: emit_def)

subsection \<open>The loops of move\<close>

lemma save_elems_ok:
  "0 \<le> i \<Longrightarrow> i \<le> cnt \<Longrightarrow> 0 \<le> from \<Longrightarrow> from + cnt \<le> int (length arr) \<Longrightarrow>
   save_elems arr removed from cnt i = Inr (removed @ map (\<lambda>k. arr ! nat (from + k)) [i..cnt - 1])"
proof (induction arr removed "from" cnt i rule: save_elems.induct)
  case (1 arr removed "from" cnt i)
  show ?case
  proof (cases "i = cnt")
    case True
    then show ?thesis by (subst save_elems.simps) simp
  next
    case False
    with 1 have lt: "i < cnt" by simp
    then have up: "[i..cnt - 1] = i # [i + 1..cnt - 1]"
      by (simp add: upto_rec1)
    from 1 lt show ?thesis
      by (subst save_elems.simps) (simp add: up)
  qed
qed

lemma shift_elems_ok:
  "0 \<le> i \<Longrightarrow> i \<le> to \<Longrightarrow> 0 \<le> cnt \<Longrightarrow> to + cnt \<le> int (length arr) \<Longrightarrow>
   shift_elems arr to cnt i = Inr (shifted arr i to cnt)"
proof (induction arr to cnt i rule: shift_elems.induct)
  case (1 arr to cnt i)
  show ?case
  proof (cases "i = to")
    case True
    then show ?thesis by (subst shift_elems.simps) (auto simp: shifted_def intro!: nth_equalityI)
  next
    case False
    with 1 have lt: "i < to" by simp
    let ?a = "arr[nat i := arr ! nat (i + cnt)]"
    have step: "shift_elems arr to cnt i = shift_elems ?a to cnt (i + 1)"
      using 1 lt by (subst shift_elems.simps) simp
    have ih: "shift_elems ?a to cnt (i + 1) = Inr (shifted ?a (i + 1) to cnt)"
      using 1 lt False by simp
    have "shifted ?a (i + 1) to cnt = shifted arr i to cnt"
      using 1 lt by (auto simp: shifted_def nth_list_update intro!: nth_equalityI)
    with step ih show ?thesis by simp
  qed
qed

lemma place_elems_ok:
  "0 \<le> i \<Longrightarrow> i \<le> cnt \<Longrightarrow> cnt \<le> int (length removed) \<Longrightarrow> 0 \<le> to \<Longrightarrow>
   to + cnt \<le> int (length arr) \<Longrightarrow>
   place_elems arr removed to cnt i = Inr (placed arr removed to cnt i)"
proof (induction arr removed to cnt i rule: place_elems.induct)
  case (1 arr removed to cnt i)
  show ?case
  proof (cases "i = cnt")
    case True
    then show ?thesis by (subst place_elems.simps) (auto simp: placed_def intro!: nth_equalityI)
  next
    case False
    with 1 have lt: "i < cnt" by simp
    let ?a = "arr[nat (to + i) := removed ! nat i]"
    have step: "place_elems arr removed to cnt i = place_elems ?a removed to cnt (i + 1)"
      using 1 lt by (subst place_elems.simps) simp
    have ih: "place_elems ?a removed to cnt (i + 1) = Inr (placed ?a removed to cnt (i + 1))"
      using 1 lt False by simp
    have "placed ?a removed to cnt (i + 1) = placed arr removed to cnt i"
      using 1 lt by (auto simp: placed_def nth_list_update nat_add_distrib intro!: nth_equalityI)
    with step ih show ?thesis by simp
  qed
qed

lemma length_moved_block [simp]: "length (moved_block arr f t c) = length arr"
  by (simp add: moved_block_def)

lemma nth_moved_block:
  "k < length arr \<Longrightarrow> moved_block arr f t c ! k =
     (if f \<le> int k \<and> int k < t then arr ! nat (int k + c)
      else if t \<le> int k \<and> int k < t + c then arr ! nat (f + (int k - t))
      else arr ! k)"
  by (simp add: moved_block_def)

lemma nth_shifted:
  "k < length arr \<Longrightarrow> shifted arr i to cnt ! k =
     (if i \<le> int k \<and> int k < to then arr ! nat (int k + cnt) else arr ! k)"
  by (simp add: shifted_def)

lemma nth_placed:
  "k < length arr \<Longrightarrow> placed arr removed to cnt i ! k =
     (if to + i \<le> int k \<and> int k < to + cnt then removed ! nat (int k - to) else arr ! k)"
  by (simp add: placed_def)

lemma length_shifted [simp]: "length (shifted arr i to cnt) = length arr"
  by (simp add: shifted_def)

lemma length_placed [simp]: "length (placed arr removed to cnt i) = length arr"
  by (simp add: placed_def)

lemma placed_shifted:
  assumes "0 \<le> f" "f < t" "0 < c" "t + c \<le> int (length arr)"
  shows "placed (shifted arr f t c) (map (\<lambda>k. arr ! nat (f + k)) [0..c - 1]) t c 0
           = moved_block arr f t c"
proof (rule nth_equalityI)
  show "length (placed (shifted arr f t c) (map (\<lambda>k. arr ! nat (f + k)) [0..c - 1]) t c 0)
          = length (moved_block arr f t c)"
    by simp
next
  fix k
  assume "k < length (placed (shifted arr f t c) (map (\<lambda>k. arr ! nat (f + k)) [0..c - 1]) t c 0)"
  then have k: "k < length arr" by simp
  show "placed (shifted arr f t c) (map (\<lambda>k. arr ! nat (f + k)) [0..c - 1]) t c 0 ! k
          = moved_block arr f t c ! k"
  proof (cases "t \<le> int k \<and> int k < t + c")
    case True
    then have "nat (int k - t) < length [0..c - 1]" using assms by simp
    moreover have "[0..c - 1] ! nat (int k - t) = int k - t"
      using True assms by (simp add: nth_upto)
    ultimately show ?thesis
      using True k assms by (simp add: nth_placed nth_moved_block)
  next
    case False
    then show ?thesis
      using k by (auto simp add: nth_placed nth_moved_block nth_shifted)
  qed
qed

lemma move_loops:
  assumes "0 \<le> f" "f < t" "0 < c" "t + c \<le> int (length arr)"
  shows "\<exists>removed a1. save_elems arr [] f c 0 = Inr removed
           \<and> shift_elems arr t c f = Inr a1
           \<and> place_elems a1 removed t c 0 = Inr (moved_block arr f t c)"
proof -
  let ?r = "map (\<lambda>k. arr ! nat (f + k)) [0..c - 1]"
  have s: "save_elems arr [] f c 0 = Inr ?r"
    using assms save_elems_ok [of 0 c f arr "[]"] by simp
  have sh: "shift_elems arr t c f = Inr (shifted arr f t c)"
    using assms by (simp add: shift_elems_ok)
  have lr: "int (length ?r) = c" using assms by simp
  have pl: "place_elems (shifted arr f t c) ?r t c 0 = Inr (placed (shifted arr f t c) ?r t c 0)"
    using assms lr by (intro place_elems_ok) simp_all
  show ?thesis
    using s sh pl placed_shifted [OF assms] by simp
qed

lemma moved_block_round_trip:
  assumes "0 \<le> f" "f < t" "0 < c" "t + c \<le> int (length arr)"
  shows "moved_block (moved_block arr f t c) f (f + c) (t - f) = arr"
proof (rule nth_equalityI)
  show "length (moved_block (moved_block arr f t c) f (f + c) (t - f)) = length arr"
    by simp
next
  fix k
  assume "k < length (moved_block (moved_block arr f t c) f (f + c) (t - f))"
  then have k: "k < length arr" by simp
  let ?m = "moved_block arr f t c"
  consider (before) "int k < f" | (block) "f \<le> int k" "int k < f + c"
    | (between) "f + c \<le> int k" "int k < t + c" | (after) "t + c \<le> int k"
    by linarith
  then show "moved_block ?m f (f + c) (t - f) ! k = arr ! k"
  proof cases
    case before
    then show ?thesis using k assms by (simp add: nth_moved_block)
  next
    case block
    let ?j = "nat (int k + (t - f))"
    have j: "?j < length arr" "t \<le> int ?j" "int ?j < t + c" "f + (int ?j - t) = int k"
      using block assms by simp_all
    have "moved_block ?m f (f + c) (t - f) ! k = ?m ! ?j"
      using block k assms by (simp add: nth_moved_block)
    also have "\<dots> = arr ! nat (f + (int ?j - t))"
      using j(1-3) assms by (simp only: nth_moved_block) simp
    finally show ?thesis using j(4) by simp
  next
    case between
    let ?j = "nat (f + (int k - (f + c)))"
    have j: "?j < length arr" "f \<le> int ?j" "int ?j < t" "int ?j + c = int k"
      using between assms k by simp_all
    have "moved_block ?m f (f + c) (t - f) ! k = ?m ! ?j"
      using between k assms by (simp add: nth_moved_block)
    also have "\<dots> = arr ! nat (int ?j + c)"
      using j(1-3) by (simp only: nth_moved_block) simp
    finally show ?thesis using j(4) by simp
  next
    case after
    then show ?thesis using k assms by (simp add: nth_moved_block)
  qed
qed

lemma m_array_do_update [simp]: "m_array (do_update st) = m_array st"
  by (simp add: do_update_def split: option.splits)

lemma move_accepted:
  assumes "0 \<le> f" "f < t" "0 < c" "t + c \<le> int (length (m_array st))"
    and "from \<noteq> to" "cnt \<noteq> 0" "move_normalize from to cnt = (f, t, c)"
  shows "\<exists>st'. move st from to cnt = Inr st' \<and> m_array st' = moved_block (m_array st) f t c"
proof -
  have acc: "move_accepts (int (length (m_array st))) from to cnt"
    using assms by (simp add: move_accepts_def)
  obtain removed a1 where
    "save_elems (m_array st) [] f c 0 = Inr removed"
    "shift_elems (m_array st) t c f = Inr a1"
    "place_elems a1 removed t c 0 = Inr (moved_block (m_array st) f t c)"
    using move_loops [OF assms(1-4)] by blast
  then show ?thesis
    using acc assms(5-7) by (simp add: move_def)
qed

lemma move_normalize_bounds:
  assumes "0 < cnt" "from \<noteq> to" "move_accepts n from to cnt"
    and "move_normalize from to cnt = (f, t, c)"
  shows "0 \<le> f \<and> f < t \<and> 0 < c \<and> t + c \<le> n"
  using assms by (auto simp: move_accepts_def move_normalize_def split: if_splits)

lemma move_normalize_back:
  assumes "0 < cnt" "from \<noteq> to" "move_normalize from to cnt = (f, t, c)"
  shows "move_normalize to from cnt = (f, f + c, t - f)"
  using assms by (auto simp: move_normalize_def split: if_splits)


subsection \<open>The example host and models\<close>

lemma example_host_simps:
  "string_function example_host = 1"
  "jl_call1 example_host f item =
     (if f = 30 then take 1 item else if f = 32 then take 1 (drop 1 item) else item)"
  "jl_call example_host f args = (if f = 20 \<and> length args = 2 then Some (concat args) else None)"
  "jl_call_setter example_host f arr v pos =
     (if f = 31 \<and> 1 \<le> pos \<and> pos \<le> int (length arr)
      then arr[nat (pos - 1) := v @ drop 1 (arr ! nat (pos - 1))] else arr)"
  "convert_to_cpp example_host j = (case j of [] \<Rightarrow> 0 | x # xs \<Rightarrow> x)"
  "convert_to_julia example_host q = [q]"
  "box example_host q = [q]"
  by (simp_all add: example_host_def)

lemma example_roles_model_eq:
  "example_roles_model items =
     \<lparr> m_array = items, m_array_wrapped = 10, m_update_array = None,
       m_rolenames = [(0, ''name''), (1, ''age'')],
       m_getters = [30, 32],
       m_setters = [Some 31, None],
       m_constructor = Some 20,
       m_custom_roles = True,
       trace = [Protect 10, Protect 20, Protect 30, Protect 31, RolesChanged, Protect 32, RolesChanged] \<rparr>"
  by (simp add: example_roles_model_def example_model_def ListModel_def setconstructor_def
      addrole_def emit_def qhash_assign_def qhash_values_contains_def qhash_size_def Let_def)

lemma append_list_constructed:
  assumes "m_constructor st = Some c"
    and "jl_call h c (map (convert_to_julia h) args) = Some item"
  shows "m_array (append_list h st args) = m_array st @ [item]"
    and "m_rolenames (append_list h st args) = m_rolenames st"
    and "m_getters (append_list h st args) = m_getters st"
  using assms by (simp_all add: append_list_def Let_def do_update_def split: option.splits)

section \<open>The claims\<close>

text \<open>
  C1. \<^verbatim>\<open>insert\<close> calls \<^verbatim>\<open>append\<close> and then \<^verbatim>\<open>move\<close>, whatever \<^verbatim>\<open>append\<close>
  did. On a model of three items with no constructor, \<open>insert(0, record)\<close> logs that no
  constructor is set and then moves the last of the items that were already there to the
  front: the backing store is changed, from \<open>1, 2, 3\<close> to \<open>3, 1, 2\<close>.
\<close>

theorem insert_without_constructor_moves_last:
  "insert_record example_host (example_model [[1], [2], [3]]) 0 (JSArray [9, 9]) =
     Inr ((example_model [[1], [2], [3]])
        \<lparr>m_array := [[3], [1], [2]],
          trace := [Protect 10, Warning NoConstructor, BeginMoveRows 0 1 3, EndMoveRows]\<rparr>)"
  by (simp add: insert_record_def append_record_def append_list_def example_model_def ListModel_def
      qWarning_def emit_def move_def move_accepts_def move_normalize_def do_update_def
      save_elems.simps shift_elems.simps place_elems.simps)

text \<open>
  C2. For a positive count and two ranges \<open>[from, from + count)\<close> and \<open>[to, to + count)\<close>
  that do not overlap, when \<open>move\<close> accepts \<open>from\<close>, \<open>to\<close> and \<open>count\<close>, the move
  returns, the move back is accepted and returns too, and the backing store has its
  original order again. The destination block may end at the last position
  (\<open>to + count\<close> equal to the size). With \<open>(f, t, c)\<close> the arguments after the swap of
  the source, acceptance gives \<open>0 \<le> f < t\<close>, \<open>0 < c\<close> and \<open>t + c\<close> at most the size, so every
  sum and difference the source computes on the way lies between \<open>-1\<close> and the size.
\<close>

theorem move_round_trip:
  assumes "0 < cnt"
    and "from + cnt \<le> to \<or> to + cnt \<le> from"
    and "move_accepts (int (length (m_array st))) from to cnt"
  shows "\<exists>st1 st2. move st from to cnt = Inr st1
           \<and> move_accepts (int (length (m_array st1))) to from cnt
           \<and> move st1 to from cnt = Inr st2
           \<and> m_array st2 = m_array st"
proof -
  from assms(1,2) have ne: "from \<noteq> to" by auto
  obtain f t c where n: "move_normalize from to cnt = (f, t, c)"
    by (cases "move_normalize from to cnt") auto
  have b: "0 \<le> f" "f < t" "0 < c" "t + c \<le> int (length (m_array st))"
    using move_normalize_bounds [OF assms(1) ne assms(3) n] by simp_all
  obtain st1 where st1: "move st from to cnt = Inr st1"
      "m_array st1 = moved_block (m_array st) f t c"
    using move_accepted [OF b ne _ n] assms(1) by auto
  have n2: "move_normalize to from cnt = (f, f + c, t - f)"
    by (rule move_normalize_back [OF assms(1) ne n])
  have len: "length (m_array st1) = length (m_array st)"
    by (simp add: st1(2))
  have acc2: "move_accepts (int (length (m_array st1))) to from cnt"
    using b n2 by (simp add: move_accepts_def len)
  have b2: "0 \<le> f" "f < f + c" "0 < t - f" "f + c + (t - f) \<le> int (length (m_array st1))"
    using b by (simp_all add: len)
  obtain st2 where st2: "move st1 to from cnt = Inr st2"
      "m_array st2 = moved_block (m_array st1) f (f + c) (t - f)"
    using move_accepted [OF b2 _ _ n2] ne assms(1) by auto
  have "m_array st2 = m_array st"
    using st2(2) st1(2) moved_block_round_trip [OF b] by simp
  with st1(1) acc2 st2(1) show ?thesis by blast
qed

theorem move_round_trip_witness:
  "(0::int) < 2 \<and> ((0::int) + 2 \<le> 2 \<or> (2::int) + 2 \<le> 0)
   \<and> move_accepts (int (length (m_array (example_model [[1], [2], [3], [4]])))) 0 2 2
   \<and> (\<exists>st1 st2. move (example_model [[1], [2], [3], [4]]) 0 2 2 = Inr st1
          \<and> move_accepts (int (length (m_array st1))) 2 0 2
          \<and> move st1 2 0 2 = Inr st2
          \<and> m_array st2 = [[1], [2], [3], [4]])"
  using move_round_trip [of 2 0 2 "example_model [[1], [2], [3], [4]]"]
  by (simp add: example_model_def ListModel_def move_accepts_def move_normalize_def)

text \<open>
  C3. In a model with a constructor, when the constructor returns an item for the
  arguments of the record, \<^verbatim>\<open>append\<close> puts that item at the end of the backing store,
  \<open>count\<close> grows by one, \<open>rowCount\<close> equals the new \<open>count\<close>, and for every role \<open>r\<close> of the
  registry \<open>data\<close> at the last row is the role's getter applied to the constructed item
  (converted to a \<^verbatim>\<open>QVariant\<close>, as \<open>data\<close> returns it) and logs nothing.
\<close>

theorem append_adds_constructed_item:
  assumes "m_constructor st = Some c"
    and "jl_call h c (map (convert_to_julia h) (argvariants_of st record)) = Some item"
  shows "m_array (append_record h st record) = m_array st @ [item]
       \<and> count (append_record h st record) = count st + 1
       \<and> rowCount (append_record h st record) = count (append_record h st record)
       \<and> (\<forall>r. 0 \<le> r \<and> r < qhash_size (m_rolenames (append_record h st record))
                \<and> r < int (length (m_getters (append_record h st record)))
            \<longrightarrow> data h (append_record h st record) (count (append_record h st record) - 1) r
                  = Inr (Some (convert_to_cpp h (jl_call1 h (m_getters (append_record h st record) ! nat r) item)),
                         append_record h st record))"
proof -
  have arr: "m_array (append_record h st record) = m_array st @ [item]"
  proof (cases "record")
    case (JSArray vs)
    then show ?thesis
      using assms by (simp add: append_record_def argvariants_of_def append_list_constructed)
  next
    case (JSObject props)
    obtain names args where c: "collect_roles (m_rolenames st) props = (names, args)"
      by (cases "collect_roles (m_rolenames st) props") auto
    have "m_array (append_list h (st\<lparr>m_rolenames := names\<rparr>) args)
            = m_array (st\<lparr>m_rolenames := names\<rparr>) @ [item]"
      using assms JSObject c by (intro append_list_constructed(1) [of _ c]) (simp_all add: argvariants_of_def)
    then show ?thesis
      using JSObject c by (simp add: append_record_def)
  qed
  then show ?thesis
    by (simp add: count_def rowCount_def data_def rolegetter_def)
qed

theorem append_adds_constructed_item_witness:
  "m_constructor (example_roles_model []) = Some 20
   \<and> jl_call example_host 20 (map (convert_to_julia example_host)
        (argvariants_of (example_roles_model []) (JSObject [(''name'', 7), (''age'', 30)]))) = Some [7, 30]
   \<and> m_array (append_record example_host (example_roles_model []) (JSObject [(''name'', 7), (''age'', 30)])) = [[7, 30]]
   \<and> count (append_record example_host (example_roles_model []) (JSObject [(''name'', 7), (''age'', 30)])) = 1
   \<and> data example_host (append_record example_host (example_roles_model []) (JSObject [(''name'', 7), (''age'', 30)])) 0 1
       = Inr (Some 30, append_record example_host (example_roles_model []) (JSObject [(''name'', 7), (''age'', 30)]))"
proof -
  let ?st = "example_roles_model []"
  let ?r = "JSObject [(''name'', 7), (''age'', 30)]"
  have args: "argvariants_of ?st ?r = [7, 30]"
    by (simp add: example_roles_model_eq argvariants_of_def collect_roles_def append_role_def
        qhash_index_def)
  have c: "m_constructor ?st = Some 20"
    by (simp add: example_roles_model_eq)
  have call: "jl_call example_host 20 (map (convert_to_julia example_host) (argvariants_of ?st ?r))
                = Some [7, 30]"
    by (simp add: args example_host_simps)
  have names: "m_rolenames (append_record example_host ?st ?r) = [(0, ''name''), (1, ''age'')]"
    and getters: "m_getters (append_record example_host ?st ?r) = [30, 32]"
    by (simp_all add: example_roles_model_eq append_record_def append_list_def collect_roles_def
        append_role_def qhash_index_def example_host_simps do_update_def Let_def)
  note t = append_adds_constructed_item [OF c call]
  have arr: "m_array (append_record example_host ?st ?r) = [[7, 30]]"
    using t by (simp add: example_roles_model_eq)
  have cnt: "count (append_record example_host ?st ?r) = 1"
    using arr by (simp add: count_def)
  let ?st' = "append_record example_host ?st ?r"
  from t have "0 \<le> (1::int) \<and> 1 < qhash_size (m_rolenames ?st') \<and> 1 < int (length (m_getters ?st'))
      \<longrightarrow> data example_host ?st' (count ?st' - 1) 1
          = Inr (Some (convert_to_cpp example_host (jl_call1 example_host (m_getters ?st' ! nat 1) [7, 30])), ?st')"
    by blast
  then have "data example_host ?st' 0 1 = Inr (Some 30, ?st')"
    by (simp add: names getters qhash_size_def cnt example_host_simps)
  with c call arr cnt show ?thesis by simp
qed

text \<open>
  C4. \<^verbatim>\<open>move\<close> does not reject a negative count. On three items, \<open>move(0, 2, -1)\<close>
  passes the test (\<open>from = 0\<close>, \<open>to = 2\<close> and \<open>to + count = 1\<close> are within the size), and
  the loop that saves the block, which runs until \<open>i = count\<close>, starts at \<open>i = 0\<close>: it
  writes \<open>removed_elems[0]\<close>, in a buffer made for \<open>count\<close> entries, and counting upwards
  it would read \<open>m_array[3]\<close> next to leave the array. The call leaves the range.
\<close>

theorem move_negative_count_reads_out_of_range:
  "move_accepts (int (length (m_array (example_model [[1], [2], [3]])))) 0 2 (- 1)
   \<and> move (example_model [[1], [2], [3]]) 0 2 (- 1) = Inl OutOfBounds"
  by (simp add: example_model_def ListModel_def move_def move_accepts_def move_normalize_def
      emit_def save_elems.simps)

text \<open>
  C5. \<^verbatim>\<open>rolesetter\<close> logs for a role outside the registry and then reads
  \<^verbatim>\<open>m_setters[role]\<close> all the same. In the default model, which has the one role 0,
  \<open>setData\<close> on row 0 with role 5 reads the setter table out of range.
\<close>

theorem setData_unknown_role_reads_out_of_range:
  "setData example_host (example_model [[1]]) 0 9 5 = Inl OutOfBounds"
  by (simp add: example_model_def ListModel_def setData_def rolesetter_def qWarning_def emit_def
      qhash_size_def qhash_assign_def)

text \<open>
  C6. \<^verbatim>\<open>clear\<close> on a model of two items, rows 0 and 1, announces the removal of rows
  \<open>0\<close> to \<open>2\<close>, empties the backing store and ends the removal; it does not emit
  \<open>countChanged\<close>.
\<close>

theorem clear_range_and_signals:
  "clear (example_model [[1], [2]]) =
     (example_model [[1], [2]])
       \<lparr>m_array := [], trace := [Protect 10, BeginRemoveRows 0 2, EndRemoveRows]\<rparr>"
  by (simp add: example_model_def ListModel_def clear_def jl_array_del_end_def do_update_def
      emit_def Let_def)

text \<open>
  C7. \<^verbatim>\<open>setProperty\<close> looks the name up with \<^verbatim>\<open>QHash::key\<close>, which is \<open>0\<close> for a
  name the registry does not hold. In a model with the roles name (0) and age (1), setting
  the property \<open>bogus\<close> of row 0 calls the setter of role 0 and changes the item's name.
\<close>

theorem setProperty_unknown_name_writes_role_0:
  "qhash_key (m_rolenames (example_roles_model [[7, 30]])) ''bogus'' = 0
   \<and> setProperty example_host (example_roles_model [[7, 30]]) 0 ''bogus'' 9 =
       Inr ((example_roles_model [[7, 30]])
         \<lparr>m_array := [[9, 30]],
           trace := trace (example_roles_model [[7, 30]]) @ [CallSetter 31 [9] 1, DataChanged 0 0 [0]]\<rparr>)"
  by (simp add: example_roles_model_eq setProperty_def setData_def rolesetter_def qhash_key_def
      qhash_size_def do_update_roles_def do_update_def emit_def example_host_simps)

text \<open>
  C8. The destructor releases the array, the update hook, the getters and the setters,
  and not the constructor. A model that was given the constructor 20 is destroyed with
  20 still protected; the getter of the default role, function 1, is released though it
  was never protected.
\<close>

theorem destructor_keeps_constructor_pinned:
  "trace (destructor (setconstructor (example_model []) 20)) =
     [Protect 10, Protect 20, Unprotect 10, Unprotect 1]"
  by (simp add: example_model_def ListModel_def setconstructor_def destructor_def emit_def
      example_host_simps)

text \<open>
  C9. For a row in range and a role of the registry with a setter, \<open>setData\<close> calls the
  setter with the array, the boxed value and the position \<open>row + 1\<close>, runs the update hook,
  emits \<open>dataChanged\<close> for the row and returns true; \<open>data\<close> applies the role's getter to
  the item at position \<open>row\<close> of the array.
\<close>

theorem setData_position_is_one_based:
  assumes "0 \<le> row" and "row < int (length (m_array st))"
    and "0 \<le> role" and "role < qhash_size (m_rolenames st)"
    and "role < int (length (m_setters st))" and "m_setters st ! nat role = Some s"
    and "role < int (length (m_getters st))"
  shows "setData h st row val role =
           Inr (True, st\<lparr>m_array := jl_call_setter h s (m_array st) (box h val) (row + 1),
                         trace := trace st @ [CallSetter s (box h val) (row + 1)]
                           @ (case m_update_array st of None \<Rightarrow> [] | Some f \<Rightarrow> [CallUpdate f])
                           @ [DataChanged row row [role]]\<rparr>)
       \<and> data h st row role =
           Inr (Some (convert_to_cpp h (jl_call1 h (m_getters st ! nat role) (m_array st ! nat row))), st)"
  using assms
  by (simp add: setData_def rolesetter_def data_def rolegetter_def do_update_roles_def
      do_update_def emit_def split: option.splits)

theorem setData_position_is_one_based_witness:
  "(1::int) < int (length (m_array (example_roles_model [[7, 30], [8, 40]])))
   \<and> (0::int) < qhash_size (m_rolenames (example_roles_model [[7, 30], [8, 40]]))
   \<and> m_setters (example_roles_model [[7, 30], [8, 40]]) ! nat 0 = Some 31
   \<and> m_getters (example_roles_model [[7, 30], [8, 40]]) ! nat 0 = 30
   \<and> setData example_host (example_roles_model [[7, 30], [8, 40]]) 1 9 0 =
     Inr (True, (example_roles_model [[7, 30], [8, 40]])
        \<lparr>m_array := [[7, 30], [9, 40]],
          trace := trace (example_roles_model [[7, 30], [8, 40]]) @ [CallSetter 31 [9] 2, DataChanged 1 1 [0]]\<rparr>)
   \<and> data example_host (example_roles_model [[7, 30], [8, 40]]) 1 0 =
     Inr (Some 8, example_roles_model [[7, 30], [8, 40]])"
  using setData_position_is_one_based [of 1 "example_roles_model [[7, 30], [8, 40]]" 0 31 example_host 9]
  by (simp add: example_roles_model_eq qhash_size_def example_host_simps)

text \<open>
  C10. In a model that still holds the default role set alone, \<open>addrole\<close> with the default
  role's name \<open>string\<close> meets the duplicate test first: the call logs that the role exists
  and changes nothing else, so the default role set is not replaced and the one-time
  transition to custom roles has not happened.
\<close>

theorem addrole_default_name_is_duplicate:
  assumes "m_rolenames st = [(0, ''string'')]" and "\<not> m_custom_roles st"
  shows "addrole st ''string'' getter setter = st\<lparr>trace := trace st @ [Warning (RoleExists ''string'')]\<rparr>
       \<and> m_rolenames (addrole st ''string'' getter setter) = [(0, ''string'')]
       \<and> m_getters (addrole st ''string'' getter setter) = m_getters st
       \<and> m_setters (addrole st ''string'' getter setter) = m_setters st
       \<and> \<not> m_custom_roles (addrole st ''string'' getter setter)"
  using assms by (simp add: addrole_def qhash_values_contains_def qWarning_def emit_def)

theorem addrole_default_name_is_duplicate_witness:
  "m_rolenames (example_model [[5], [6]]) = [(0, ''string'')]
   \<and> \<not> m_custom_roles (example_model [[5], [6]])
   \<and> addrole (example_model [[5], [6]]) ''string'' (Some 3) (Some 4)
     = (example_model [[5], [6]])\<lparr>trace := [Protect 10, Warning (RoleExists ''string'')]\<rparr>"
  using addrole_default_name_is_duplicate [of "example_model [[5], [6]]" "Some 3" "Some 4"]
  by (simp add: example_model_def ListModel_def qhash_assign_def)

end
